theory Spec2Isabelle
  imports Main "HOL-Library.Word" "HOL-Library.Sublist"
begin

section \<open>Data model of the HTTP tunnel listener (transport/internet/http/hub.go)\<close>

type_synonym byte = "8 word"

text \<open>\<^verbatim>\<open>net.IP\<close> is a byte slice.\<close>

type_synonym IP = "byte list"

text \<open>Go \<^verbatim>\<open>error\<close> values; a nil error is \<open>None\<close> of \<open>error option\<close>.\<close>

datatype error = ErrClosedPipe | Err string

text \<open>The two \<^verbatim>\<open>net.Addr\<close> implementations the file builds:
  \<^verbatim>\<open>&net.TCPAddr{IP, Port}\<close> and \<^verbatim>\<open>&net.UnixAddr{Name, Net}\<close>.\<close>

datatype Addr = TCPAddr IP int | UnixAddr string string

text \<open>\<^verbatim>\<open>net.Destination\<close>: the fields hub.go reads. The address type \<open>'a\<close> is
  \<^verbatim>\<open>net.Address\<close>, declared outside the files at hand; its methods are taken as
  parameters (record \<open>Net\<close> below).\<close>

record 'a Destination =
  dest_Address :: 'a
  dest_Port :: "16 word"

text \<open>Modelled from the spec: the transport's \<^verbatim>\<open>Config\<close> (generated configuration code,
  not among the files at hand): "allowed hosts (set of hostnames; empty = wildcard),
  path prefix (string, normalized)".\<close>

record Config =
  Host :: "string list"
  Path :: string

text \<open>Modelled from the spec: \<^verbatim>\<open>Config.isValidHost\<close> is missing from the files at hand;
  "Reject with status 404 if the request's Host header is not in the configured
  allowed-host set (an empty allowed-host set matches any host)".\<close>

definition isValidHost :: "Config \<Rightarrow> string \<Rightarrow> bool" where
  "isValidHost c host = (Host c = [] \<or> host \<in> set (Host c))"

text \<open>Modelled from the spec: \<^verbatim>\<open>Config.getNormalizedPath\<close> is missing from the files at
  hand; "a non-empty prefix is normalized to start and end with /; default is /".\<close>

definition getNormalizedPath :: "Config \<Rightarrow> string" where
  "getNormalizedPath c =
     (if Path c = [] then ''/''
      else (let p = (if hd (Path c) = CHR ''/'' then Path c else CHR ''/'' # Path c)
            in if last p = CHR ''/'' then p else p @ ''/''))"

text \<open>The fields of \<^verbatim>\<open>*http.Request\<close> that \<^verbatim>\<open>ServeHTTP\<close> reads.\<close>

record Request =
  req_Host :: string
  req_URL_Path :: string
  req_RemoteAddr :: string
  req_Header :: "string \<rightharpoonup> string list"

subsection \<open>The response writer\<close>

text \<open>An \<^verbatim>\<open>http.ResponseWriter\<close> (also the \<^verbatim>\<open>io.Writer\<close> behind the flush adapter) is an
  interface value: the model records the calls it receives, in order, whether its
  dynamic type also implements \<^verbatim>\<open>http.Flusher\<close>, and what its \<^verbatim>\<open>Write\<close> answers.\<close>

datatype wcall =
    CallHeaderSet string string
  | CallWriteHeader int
  | CallWrite "byte list"
  | CallFlush

record Writer =
  calls :: "wcall list"
  isFlusher :: bool
  writeResult :: "byte list \<Rightarrow> int \<times> error option"

definition Header_Set :: "string \<Rightarrow> string \<Rightarrow> Writer \<Rightarrow> Writer" where
  "Header_Set k v wr = wr\<lparr>calls := calls wr @ [CallHeaderSet k v]\<rparr>"

definition WriteHeader :: "int \<Rightarrow> Writer \<Rightarrow> Writer" where
  "WriteHeader code wr = wr\<lparr>calls := calls wr @ [CallWriteHeader code]\<rparr>"

definition Writer_Write :: "byte list \<Rightarrow> Writer \<Rightarrow> (int \<times> error option) \<times> Writer" where
  "Writer_Write p wr = (writeResult wr p, wr\<lparr>calls := calls wr @ [CallWrite p]\<rparr>)"

definition Flusher_Flush :: "Writer \<Rightarrow> Writer" where
  "Flusher_Flush wr = wr\<lparr>calls := calls wr @ [CallFlush]\<rparr>"

subsection \<open>The synchronization signal\<close>

text \<open>Modelled from the spec: \<^verbatim>\<open>done.Instance\<close> (package common/signal/done) is missing
  from the files at hand; "a one-shot, broadcast done flag": "signal() - idempotent, marks
  done exactly once", "isDone() - non-blocking poll", "wait() - suspends the calling unit
  of concurrency until signal() has been called (or returns immediately if already
  signaled)". The state of an instance is one flag.\<close>

type_synonym Instance = bool

definition done_New :: Instance where
  "done_New = False"

definition Done :: "Instance \<Rightarrow> bool" where
  "Done dn = dn"

definition done_Close :: "Instance \<Rightarrow> Instance" where
  "done_Close dn = True"

subsection \<open>flushWriter\<close>

text \<open>\<^verbatim>\<open>type flushWriter struct { w io.Writer; d *done.Instance }\<close>. Both fields refer to
  shared objects; the record holds their current states and \<^verbatim>\<open>Write\<close> returns the
  record with the destination updated.\<close>

record flushWriter =
  fw_w :: Writer
  fw_d :: Instance

definition flushWriter_Write ::
  "flushWriter \<Rightarrow> byte list \<Rightarrow> (int \<times> error option) \<times> flushWriter" where
  "flushWriter_Write fw p =
     (if Done (fw_d fw) then ((0, Some ErrClosedPipe), fw)
      else (let (r, w1) = Writer_Write p (fw_w fw);
                w2 = (if isFlusher w1 then Flusher_Flush w1 else w1)
            in (r, fw\<lparr>fw_w := w2\<rparr>)))"

subsection \<open>Collaborators on network addresses\<close>

text \<open>The pieces handed to \<^verbatim>\<open>serial.Concat\<close> and \<^verbatim>\<open>newError\<close>: string literals, the
  listening address and the port.\<close>

datatype 'a part = S string | A 'a | P "16 word"

text \<open>Functions of the packages common/net, common/protocol/http and common/serial that
  hub.go calls and that are not among the files at hand. They are parameters of the model:
  \<^verbatim>\<open>net.ParseDestination\<close>, \<^verbatim>\<open>http_proto.ParseXForwardedFor\<close>, the methods
  \<^verbatim>\<open>Family().IsIP()\<close>, \<^verbatim>\<open>IP()\<close> and \<^verbatim>\<open>Domain()\<close> of \<^verbatim>\<open>net.Address\<close>, and
  \<^verbatim>\<open>serial.Concat\<close>.\<close>

record 'a Net =
  ParseDestination :: "string \<Rightarrow> error + 'a Destination"
  ParseXForwardedFor :: "(string \<rightharpoonup> string list) \<Rightarrow> 'a list"
  addr_IsIP :: "'a \<Rightarrow> bool"
  addr_IP :: "'a \<Rightarrow> IP"
  addr_Domain :: "'a \<Rightarrow> string"
  Concat :: "'a part list \<Rightarrow> string"

subsection \<open>Connections and the listener\<close>

text \<open>The members of the \<^verbatim>\<open>common.ChainedClosable{done, request.Body}\<close> that closes a
  connection.\<close>

datatype closable = TheDone | TheRequestBody

text \<open>The connection synthesized by \<^verbatim>\<open>net.NewConnection\<close> for one request. Its read side
  is the request body and its write side the \<^verbatim>\<open>flushWriter\<close> over the response writer and
  the signal of the exchange; the record keeps the close chain and the two addresses.\<close>

record Connection =
  conn_OnClose :: "closable list"
  conn_LocalAddr :: Addr
  conn_RemoteAddr :: Addr

text \<open>What a holder of the connection can do with it.\<close>

datatype conn_op = ConnWrite "byte list" | ConnRead | ConnClose

text \<open>\<^verbatim>\<open>newError(...).Base(err)\<close> with or without \<^verbatim>\<open>AtWarning()\<close>, as passed to
  \<^verbatim>\<open>WriteToLog\<close>.\<close>

datatype severity = AtDefault | AtWarning

datatype log_entry = LogEntry severity string "error option"

text \<open>An \<^verbatim>\<open>internet.FileLocker\<close>, named by the path of its lock file.\<close>

datatype FileLocker = FileLocker string

text \<open>\<^verbatim>\<open>config.GetTLSConfig(tls.WithNextProto("h2"))\<close>: the transport's TLS settings,
  named by a number, and the protocol offered.\<close>

datatype TLSConfig = GetTLSConfig nat string

text \<open>\<^verbatim>\<open>http.Server\<close>: the fields \<^verbatim>\<open>Listen\<close> sets. \<^verbatim>\<open>Handler\<close> is either
  \<^verbatim>\<open>h2c.NewHandler(listener, h2s)\<close> or the listener itself; \<^verbatim>\<open>ReadHeaderTimeout\<close> is
  in seconds.\<close>

datatype ServerHandler = H2CHandler | ListenerHandler

record Server =
  srv_Addr :: string
  srv_TLSConfig :: "TLSConfig option"
  srv_Handler :: ServerHandler
  srv_ReadHeaderTimeout :: nat

text \<open>\<^verbatim>\<open>type Listener struct\<close>. \<^verbatim>\<open>handler\<close> is an \<^verbatim>\<open>internet.ConnHandler\<close>, a function
  on the connection: the model takes it as the operations it performs on the connection
  before it returns. \<^verbatim>\<open>locker\<close> is nil (\<open>None\<close>) unless a file lock was found.
  \<^verbatim>\<open>server\<close> and \<^verbatim>\<open>config\<close> are set in every Listener that \<^verbatim>\<open>Listen\<close> returns.\<close>

record Listener =
  server :: Server
  handler :: "Connection \<Rightarrow> conn_op list"
  local :: Addr
  config :: Config
  locker :: "FileLocker option"

text \<open>Everything the methods act upon: the response writer, the signal and the request
  body of the exchange being served, the connections handed to the handler, the log,
  standard error, the \<^verbatim>\<open>Release\<close> calls received by file locks and the number of
  \<^verbatim>\<open>Close\<close> calls received by the server.\<close>

record World =
  writer :: Writer
  signal :: Instance
  bodyClosed :: bool
  handled :: "Connection list"
  logged :: "log_entry list"
  stderr :: "string list"
  released :: "FileLocker list"
  serverCloses :: nat

definition WriteToLog :: "log_entry \<Rightarrow> World \<Rightarrow> World" where
  "WriteToLog e s = s\<lparr>logged := logged s @ [e]\<rparr>"

subsection \<open>Listener.Addr and Listener.Close\<close>

definition Listener_Addr :: "Listener \<Rightarrow> Addr" where
  "Listener_Addr l = local l"

definition Fprintln_Stderr :: "string \<Rightarrow> World \<Rightarrow> World" where
  "Fprintln_Stderr line s = s\<lparr>stderr := stderr s @ [line]\<rparr>"

definition Release :: "FileLocker \<Rightarrow> World \<Rightarrow> World" where
  "Release fl s = s\<lparr>released := released s @ [fl]\<rparr>"

text \<open>\<^verbatim>\<open>l.server.Close()\<close>: the call is counted; its error is the parameter \<open>closeErr\<close>.\<close>

definition Server_Close :: "error option \<Rightarrow> World \<Rightarrow> error option \<times> World" where
  "Server_Close closeErr s = (closeErr, s\<lparr>serverCloses := Suc (serverCloses s)\<rparr>)"

definition Listener_Close :: "error option \<Rightarrow> Listener \<Rightarrow> World \<Rightarrow> error option \<times> World" where
  "Listener_Close closeErr l s =
     (let s1 = (case locker l of
                  Some lk \<Rightarrow> Release lk (Fprintln_Stderr ''RELEASE LOCK'' s)
                | None \<Rightarrow> s)
      in Server_Close closeErr s1)"

subsection \<open>Operations on a synthesized connection\<close>

text \<open>A write on the connection goes through \<^verbatim>\<open>flushWriter{w: writer, d: done}\<close>.\<close>

definition Connection_Write :: "byte list \<Rightarrow> World \<Rightarrow> World" where
  "Connection_Write p s =
     (let (r, fw) = flushWriter_Write \<lparr>fw_w = writer s, fw_d = signal s\<rparr> p
      in s\<lparr>writer := fw_w fw\<rparr>)"

fun Close_one :: "closable \<Rightarrow> World \<Rightarrow> World" where
  "Close_one TheDone s = s\<lparr>signal := done_Close (signal s)\<rparr>"
| "Close_one TheRequestBody s = s\<lparr>bodyClosed := True\<rparr>"

text \<open>Modelled from the spec: \<^verbatim>\<open>common.ChainedClosable\<close> and the connection's
  \<^verbatim>\<open>Close\<close> are missing from the files at hand; "a close callback that closes both the
  Synchronization Signal and the request body".\<close>

fun ChainedClosable_Close :: "closable list \<Rightarrow> World \<Rightarrow> World" where
  "ChainedClosable_Close [] s = s"
| "ChainedClosable_Close (c # cs) s = ChainedClosable_Close cs (Close_one c s)"

fun conn_step :: "Connection \<Rightarrow> conn_op \<Rightarrow> World \<Rightarrow> World" where
  "conn_step conn (ConnWrite p) s = Connection_Write p s"
| "conn_step conn ConnRead s = s"
| "conn_step conn ConnClose s = ChainedClosable_Close (conn_OnClose conn) s"

fun conn_steps :: "Connection \<Rightarrow> conn_op list \<Rightarrow> World \<Rightarrow> World" where
  "conn_steps conn [] s = s"
| "conn_steps conn (x # xs) s = conn_steps conn xs (conn_step conn x s)"

text \<open>\<^verbatim>\<open>l.handler(conn)\<close>: the connection is recorded, then the handler's own operations
  on it run.\<close>

definition call_handler :: "Listener \<Rightarrow> Connection \<Rightarrow> World \<Rightarrow> World" where
  "call_handler l conn s = conn_steps conn (handler l conn) (s\<lparr>handled := handled s @ [conn]\<rparr>)"

text \<open>A call either returns or stays blocked; both carry the world reached.\<close>

datatype exec = Returned World | Blocked World

fun world_of :: "exec \<Rightarrow> World" where
  "world_of (Returned s) = s"
| "world_of (Blocked s) = s"

fun returns :: "exec \<Rightarrow> bool" where
  "returns (Returned s) = True"
| "returns (Blocked s) = False"

text \<open>\<^verbatim>\<open><-done.Wait()\<close>: the receive completes as soon as the signal is done. While it is
  not, the caller stays suspended and the other holders of the connection go on; \<open>later\<close>
  is what they do with it, in order. When they are through and the signal is still not
  done, the caller is blocked for good.\<close>

fun done_Wait :: "Connection \<Rightarrow> conn_op list \<Rightarrow> World \<Rightarrow> exec" where
  "done_Wait conn [] s = (if Done (signal s) then Returned s else Blocked s)"
| "done_Wait conn (x # xs) s =
     (if Done (signal s) then Returned s else done_Wait conn xs (conn_step conn x s))"

subsection \<open>Listener.ServeHTTP\<close>

definition ServeHTTP ::
  "'a Net \<Rightarrow> Listener \<Rightarrow> Request \<Rightarrow> conn_op list \<Rightarrow> World \<Rightarrow> exec" where
  "ServeHTTP N l request later s =
     (let host = req_Host request in
      if \<not> isValidHost (config l) host
      then Returned (s\<lparr>writer := WriteHeader 404 (writer s)\<rparr>)
      else
        let path = getNormalizedPath (config l) in
        if \<not> prefix path (req_URL_Path request)
        then Returned (s\<lparr>writer := WriteHeader 404 (writer s)\<rparr>)
        else
          let s1 = s\<lparr>writer := Header_Set ''Cache-Control'' ''no-store'' (writer s)\<rparr>;
              s2 = s1\<lparr>writer := WriteHeader 200 (writer s1)\<rparr>;
              s3 = (if isFlusher (writer s2)
                    then s2\<lparr>writer := Flusher_Flush (writer s2)\<rparr> else s2);
              remoteAddr0 = Listener_Addr l;
              (remoteAddr1, s4) =
                (case ParseDestination N (req_RemoteAddr request) of
                   Inl err \<Rightarrow>
                     (remoteAddr0,
                      WriteToLog (LogEntry AtDefault
                        (Concat N [S ''failed to parse request remote addr: '',
                                   S (req_RemoteAddr request)]) (Some err)) s3)
                 | Inr dest \<Rightarrow>
                     (TCPAddr (addr_IP N (dest_Address dest)) (uint (dest_Port dest)), s3));
              forwardedAddrs = ParseXForwardedFor N (req_Header request);
              remoteAddr =
                (if length forwardedAddrs > 0 \<and> addr_IsIP N (forwardedAddrs ! 0)
                 then TCPAddr (addr_IP N (forwardedAddrs ! 0)) 0
                 else remoteAddr1);
              s5 = s4\<lparr>signal := done_New\<rparr>;
              conn = \<lparr>conn_OnClose = [TheDone, TheRequestBody],
                      conn_LocalAddr = Listener_Addr l,
                      conn_RemoteAddr = remoteAddr\<rparr>;
              s6 = call_handler l conn s5
          in done_Wait conn later s6)"

subsection \<open>Listen\<close>

text \<open>\<^verbatim>\<open>streamSettings.ProtocolSettings\<close> is an interface value: it holds this transport's
  \<^verbatim>\<open>*Config\<close>, a value of some other type (named here by a string), or nil.\<close>

datatype Settings = HTTPConfig Config | OtherSettings string | NilSettings

record SocketConfig =
  AcceptProxyProtocol :: bool

text \<open>\<^verbatim>\<open>internet.MemoryStreamConfig\<close>: the two fields \<^verbatim>\<open>Listen\<close> reads.\<close>

record MemoryStreamConfig =
  ProtocolSettings :: Settings
  SocketSettings :: "SocketConfig option"

text \<open>What \<^verbatim>\<open>ctx.Value(key)\<close> can hold: a \<^verbatim>\<open>*internet.FileLocker\<close> or a value of another
  type; nil is \<open>None\<close>.\<close>

datatype ctx_value = LockerValue FileLocker | OtherValue string

type_synonym Context = "string \<rightharpoonup> ctx_value"

text \<open>The system-side collaborators of \<^verbatim>\<open>Listen\<close>, parameters of the model:
  \<^verbatim>\<open>tls.ConfigFromStreamSettings\<close> (nil is \<open>None\<close>), \<^verbatim>\<open>internet.ListenSystem\<close>, whose
  stream listener is named by a number, and the results of \<^verbatim>\<open>server.Serve\<close> and
  \<^verbatim>\<open>server.ServeTLS\<close> once they return.\<close>

record Sys =
  ConfigFromStreamSettings :: "MemoryStreamConfig \<Rightarrow> nat option"
  ListenSystem :: "Addr \<Rightarrow> SocketConfig option \<Rightarrow> error + nat"
  Serve :: "Server \<Rightarrow> nat \<Rightarrow> error option"
  ServeTLS :: "Server \<Rightarrow> nat \<Rightarrow> error option"

text \<open>A call returns a value or panics.\<close>

datatype 'r outcome = Panic string | Return 'r

text \<open>The body of \<^verbatim>\<open>Listen\<close> up to its \<^verbatim>\<open>return listener, nil\<close>. The goroutine started
  by the \<^verbatim>\<open>go\<close> statement is \<open>Listen_go\<close> below. The session id that
  \<^verbatim>\<open>session.ExportIDToError(ctx)\<close> attaches to a log entry is left out.\<close>

definition Listen ::
  "'a Net \<Rightarrow> Sys \<Rightarrow> Context \<Rightarrow> 'a \<Rightarrow> 16 word \<Rightarrow> MemoryStreamConfig \<Rightarrow>
   (Connection \<Rightarrow> conn_op list) \<Rightarrow> World \<Rightarrow> ((Listener \<times> error option) \<times> World) outcome" where
  "Listen N Y ctx address port streamSettings hdl s =
     (case ProtocolSettings streamSettings of
        HTTPConfig httpSettings \<Rightarrow>
          (let lcl = (if port = 0
                      then UnixAddr (addr_Domain N address) ''unix''
                      else TCPAddr (addr_IP N address) (uint port));
               srv = (case ConfigFromStreamSettings Y streamSettings of
                        None \<Rightarrow>
                          \<lparr>srv_Addr = Concat N [A address, S '':'', P port],
                           srv_TLSConfig = None,
                           srv_Handler = H2CHandler,
                           srv_ReadHeaderTimeout = 4\<rparr>
                      | Some c \<Rightarrow>
                          \<lparr>srv_Addr = Concat N [A address, S '':'', P port],
                           srv_TLSConfig = Some (GetTLSConfig c ''h2''),
                           srv_Handler = ListenerHandler,
                           srv_ReadHeaderTimeout = 4\<rparr>);
               s1 = (case SocketSettings streamSettings of
                       None \<Rightarrow> s
                     | Some so \<Rightarrow>
                         if AcceptProxyProtocol so
                         then WriteToLog (LogEntry AtWarning
                                (Concat N [S ''accepting PROXY protocol'']) None) s
                         else s);
               listener = \<lparr>server = srv, handler = hdl, local = lcl,
                           config = httpSettings, locker = None\<rparr>
           in Return ((listener, None), s1))
      | OtherSettings ty \<Rightarrow> Panic ''interface conversion''
      | NilSettings \<Rightarrow> Panic ''interface conversion'')"

text \<open>The tail of the goroutine: \<^verbatim>\<open>server.Serve\<close> or \<^verbatim>\<open>server.ServeTLS\<close>, whose error
  is logged.\<close>

definition Listen_serve ::
  "'a Net \<Rightarrow> Sys \<Rightarrow> MemoryStreamConfig \<Rightarrow> nat \<Rightarrow> Listener \<Rightarrow> World \<Rightarrow> World" where
  "Listen_serve N Y streamSettings streamListener listener s =
     (case ConfigFromStreamSettings Y streamSettings of
        None \<Rightarrow>
          (case Serve Y (server listener) streamListener of
             Some err \<Rightarrow>
               WriteToLog (LogEntry AtDefault (Concat N [S ''stoping serving H2C'']) (Some err)) s
           | None \<Rightarrow> s)
      | Some c \<Rightarrow>
          (case ServeTLS Y (server listener) streamListener of
             Some err \<Rightarrow>
               WriteToLog (LogEntry AtDefault (Concat N [S ''stoping serving TLS'']) (Some err)) s
           | None \<Rightarrow> s))"

text \<open>The goroutine of \<^verbatim>\<open>Listen\<close>. It shares the Listener with the caller and may set its
  \<^verbatim>\<open>locker\<close>; the Listener is returned as the goroutine leaves it.\<close>

definition Listen_go ::
  "'a Net \<Rightarrow> Sys \<Rightarrow> Context \<Rightarrow> 'a \<Rightarrow> 16 word \<Rightarrow> MemoryStreamConfig \<Rightarrow>
   Listener \<Rightarrow> World \<Rightarrow> (Listener \<times> World) outcome" where
  "Listen_go N Y ctx address port streamSettings listener s =
     (if port = 0
      then
        (case ListenSystem Y (UnixAddr (addr_Domain N address) ''unix'')
                (SocketSettings streamSettings) of
           Inl err \<Rightarrow>
             Return (listener,
               WriteToLog (LogEntry AtDefault
                 (Concat N [S ''failed to listen on '', A address]) (Some err)) s)
         | Inr streamListener \<Rightarrow>
             (case ctx (addr_Domain N address) of
                None \<Rightarrow>
                  Return (listener, Listen_serve N Y streamSettings streamListener listener s)
              | Some (LockerValue fl) \<Rightarrow>
                  Return (listener\<lparr>locker := Some fl\<rparr>,
                    Listen_serve N Y streamSettings streamListener
                      (listener\<lparr>locker := Some fl\<rparr>) s)
              | Some (OtherValue ty) \<Rightarrow> Panic ''interface conversion''))
      else
        (case ListenSystem Y (TCPAddr (addr_IP N address) (uint port))
                (SocketSettings streamSettings) of
           Inl err \<Rightarrow>
             Return (listener,
               WriteToLog (LogEntry AtDefault
                 (Concat N [S ''failed to listen on '', A address, S '':'', P port])
                 (Some err)) s)
         | Inr streamListener \<Rightarrow>
             Return (listener, Listen_serve N Y streamSettings streamListener listener s)))"

section \<open>The static picker of the reverse portal (app/reverse)\<close>

text \<open>Modelled from the spec: the Worker of package app/reverse is missing from the files
  at hand (only portal_test.go is there); "Worker: {multiplexed session handle, liveness
  flag, open-sub-stream count}", "isAvailable() (true if the underlying multiplexed
  session is open and has spare stream capacity)", with the "declared capacity" of the
  Worker as a field.\<close>

record Worker =
  session :: nat
  alive :: bool
  streams :: nat
  capacity :: nat

definition IsAvailable :: "Worker \<Rightarrow> bool" where
  "IsAvailable wk = (alive wk \<and> streams wk < capacity wk)"

definition IsClosed :: "Worker \<Rightarrow> bool" where
  "IsClosed wk = (\<not> alive wk)"

text \<open>Modelled from the spec: the static picker is missing from the files at hand;
  "constructed with a fixed list (possibly empty)".\<close>

record StaticMuxPicker =
  workers :: "Worker list"

definition NewStaticMuxPicker :: "Worker list \<Rightarrow> StaticMuxPicker \<times> error option" where
  "NewStaticMuxPicker ws = (\<lparr>workers = ws\<rparr>, None)"

definition ErrNoAvailableWorker :: error where
  "ErrNoAvailableWorker = Err ''no available worker''"

text \<open>Modelled from the spec: "iterates the list and returns the first available one,
  evicting Workers observed to be closed". The result is the list kept and the Worker
  found, if any.\<close>

fun pick :: "Worker list \<Rightarrow> Worker list \<times> Worker option" where
  "pick [] = ([], None)"
| "pick (wk # ws) =
     (if IsClosed wk then pick ws
      else if IsAvailable wk then (wk # ws, Some wk)
      else (let (kept, found) = pick ws in (wk # kept, found)))"

text \<open>Modelled from the spec: \<^verbatim>\<open>PickAvailable\<close> is missing from the files at hand;
  "pickAvailable() -> Worker, error. Must fail (not return a null/placeholder Worker) with
  a distinguishable no available worker error when the pool is empty or every Worker
  reports unavailable". The Go result pair is (worker, err) with nil as \<open>None\<close>.\<close>

definition PickAvailable ::
  "StaticMuxPicker \<Rightarrow> (Worker option \<times> error option) \<times> StaticMuxPicker" where
  "PickAvailable pk =
     (case pick (workers pk) of
        (kept, Some wk) \<Rightarrow> ((Some wk, None), pk\<lparr>workers := kept\<rparr>)
      | (kept, None) \<Rightarrow> ((None, Some ErrNoAvailableWorker), pk\<lparr>workers := kept\<rparr>))"

section \<open>Notions used to state the properties\<close>

text \<open>A request is accepted when it passes both policy checks at the head of
  \<^verbatim>\<open>ServeHTTP\<close>.\<close>

definition accepted :: "Listener \<Rightarrow> Request \<Rightarrow> bool" where
  "accepted l request =
     (isValidHost (config l) (req_Host request) \<and>
      prefix (getNormalizedPath (config l)) (req_URL_Path request))"

section \<open>Concrete inputs\<close>

text \<open>A small address type and collaborators that answer on a handful of strings; the
  theorems below are instantiated on them.\<close>

datatype SampleAddress = SampleIP IP | SampleDomain string

definition net0 :: "SampleAddress Net" where
  "net0 =
     \<lparr>ParseDestination = (\<lambda>r. if r = ''10.0.0.7:4321''
          then Inr \<lparr>dest_Address = SampleIP [10, 0, 0, 7], dest_Port = 4321\<rparr>
          else Inl (Err ''invalid address'')),
      ParseXForwardedFor = (\<lambda>h. case h ''X-Forwarded-For'' of
          Some (v # vs) \<Rightarrow> (if v = ''203.0.113.9'' then [SampleIP [203, 0, 113, 9]]
                             else [SampleDomain v])
        | _ \<Rightarrow> []),
      addr_IsIP = (\<lambda>a. case a of SampleIP ip \<Rightarrow> True | SampleDomain d \<Rightarrow> False),
      addr_IP = (\<lambda>a. case a of SampleIP ip \<Rightarrow> ip | SampleDomain d \<Rightarrow> []),
      addr_Domain = (\<lambda>a. case a of SampleIP ip \<Rightarrow> [] | SampleDomain d \<Rightarrow> d),
      Concat = (\<lambda>ps. concat (map (\<lambda>p. case p of S x \<Rightarrow> x | A a \<Rightarrow> ''ADDR''
                                          | P n \<Rightarrow> ''PORT'') ps))\<rparr>"

definition writer0 :: Writer where
  "writer0 = \<lparr>calls = [], isFlusher = True, writeResult = (\<lambda>p. (int (length p), None))\<rparr>"

definition world0 :: World where
  "world0 = \<lparr>writer = writer0, signal = False, bodyClosed = False, handled = [],
             logged = [], stderr = [], released = [], serverCloses = 0\<rparr>"

text \<open>The same world with a response writer that does not implement
  \<^verbatim>\<open>http.Flusher\<close>.\<close>

definition plain_world0 :: World where
  "plain_world0 = world0\<lparr>writer := writer0\<lparr>isFlusher := False\<rparr>\<rparr>"

definition handler0 :: "Connection \<Rightarrow> conn_op list" where
  "handler0 conn = [ConnWrite [104, 105], ConnClose]"

definition listener0 :: Listener where
  "listener0 =
     \<lparr>server = \<lparr>srv_Addr = ''127.0.0.1:8080'', srv_TLSConfig = None,
                srv_Handler = H2CHandler, srv_ReadHeaderTimeout = 4\<rparr>,
      handler = handler0,
      local = TCPAddr [127, 0, 0, 1] 8080,
      config = \<lparr>Host = [''example.com''], Path = ''/tunnel''\<rparr>,
      locker = Some (FileLocker ''/run/h2.sock.lock'')\<rparr>"

definition request0 :: Request where
  "request0 = \<lparr>req_Host = ''example.com'', req_URL_Path = ''/tunnel/a'',
               req_RemoteAddr = ''10.0.0.7:4321'',
               req_Header = [''X-Forwarded-For'' \<mapsto> [''203.0.113.9'']]\<rparr>"

text \<open>A system where binding fails, and one where binding succeeds and serving stops with
  an error.\<close>

definition sys0 :: Sys where
  "sys0 = \<lparr>ConfigFromStreamSettings = (\<lambda>ss. None),
           ListenSystem = (\<lambda>a so. Inl (Err ''address already in use'')),
           Serve = (\<lambda>srv sl. Some (Err ''http: Server closed'')),
           ServeTLS = (\<lambda>srv sl. Some (Err ''http: Server closed''))\<rparr>"

definition sys1 :: Sys where
  "sys1 = sys0\<lparr>ListenSystem := (\<lambda>a so. Inr 7)\<rparr>"

definition settings0 :: MemoryStreamConfig where
  "settings0 = \<lparr>ProtocolSettings = HTTPConfig \<lparr>Host = [''example.com''], Path = ''/tunnel''\<rparr>,
                SocketSettings = None\<rparr>"

section \<open>What the connection operations leave untouched\<close>

lemma Connection_Write_frame:
  "handled (Connection_Write p s) = handled s"
  "signal (Connection_Write p s) = signal s"
  "logged (Connection_Write p s) = logged s"
  "isFlusher (writer (Connection_Write p s)) = isFlusher (writer s)"
  by (simp_all add: Connection_Write_def flushWriter_Write_def Writer_Write_def
        Flusher_Flush_def split: prod.splits)

lemma Connection_Write_calls:
  "prefix (calls (writer s)) (calls (writer (Connection_Write p s)))"
  by (simp add: Connection_Write_def flushWriter_Write_def Writer_Write_def
        Flusher_Flush_def split: prod.splits)

lemma ChainedClosable_Close_handled: "handled (ChainedClosable_Close cs s) = handled s"
proof (induction cs arbitrary: s)
  case Nil
  show ?case by simp
next
  case (Cons c cs)
  then show ?case by (cases c) simp_all
qed

lemma ChainedClosable_Close_writer: "writer (ChainedClosable_Close cs s) = writer s"
proof (induction cs arbitrary: s)
  case Nil
  show ?case by simp
next
  case (Cons c cs)
  then show ?case by (cases c) simp_all
qed

lemma conn_step_handled: "handled (conn_step conn x s) = handled s"
  by (cases x) (simp_all add: Connection_Write_frame ChainedClosable_Close_handled)

lemma conn_step_calls: "prefix (calls (writer s)) (calls (writer (conn_step conn x s)))"
  by (cases x) (simp_all add: Connection_Write_calls ChainedClosable_Close_writer)

lemma conn_steps_handled: "handled (conn_steps conn xs s) = handled s"
  by (induction xs arbitrary: s) (simp_all add: conn_step_handled)

lemma conn_steps_calls: "prefix (calls (writer s)) (calls (writer (conn_steps conn xs s)))"
proof (induction xs arbitrary: s)
  case Nil
  show ?case by simp
next
  case (Cons x xs)
  have "prefix (calls (writer s)) (calls (writer (conn_step conn x s)))"
    by (rule conn_step_calls)
  also have "prefix \<dots> (calls (writer (conn_steps conn xs (conn_step conn x s))))"
    by (rule Cons.IH)
  finally show ?case by simp
qed

lemma call_handler_handled: "handled (call_handler l conn s) = handled s @ [conn]"
  by (simp add: call_handler_def conn_steps_handled)

lemma call_handler_calls: "prefix (calls (writer s)) (calls (writer (call_handler l conn s)))"
  using conn_steps_calls [of "s\<lparr>handled := handled s @ [conn]\<rparr>" conn "handler l conn"]
  by (simp add: call_handler_def)

section \<open>The wait on the signal\<close>

lemma done_Wait_handled: "handled (world_of (done_Wait conn xs s)) = handled s"
  by (induction xs arbitrary: s) (simp_all add: conn_step_handled)

lemma done_Wait_calls:
  "prefix (calls (writer s)) (calls (writer (world_of (done_Wait conn xs s))))"
proof (induction xs arbitrary: s)
  case Nil
  show ?case by simp
next
  case (Cons x xs)
  show ?case
  proof (cases "Done (signal s)")
    case True
    then show ?thesis by simp
  next
    case False
    have "prefix (calls (writer s)) (calls (writer (conn_step conn x s)))"
      by (rule conn_step_calls)
    also have "prefix \<dots> (calls (writer (world_of (done_Wait conn xs (conn_step conn x s)))))"
      by (rule Cons.IH)
    finally show ?thesis using False by simp
  qed
qed

text \<open>The wait returns exactly when the signal is done in the world it ends in.\<close>

lemma done_Wait_returns_iff:
  "returns (done_Wait conn xs s) \<longleftrightarrow> Done (signal (world_of (done_Wait conn xs s)))"
  by (induction xs arbitrary: s) simp_all

text \<open>Once the wait has returned, nothing that the other holders do afterwards is part of
  the call.\<close>

lemma done_Wait_append:
  "returns (done_Wait conn xs s) \<Longrightarrow> done_Wait conn (xs @ ys) s = done_Wait conn xs s"
proof (induction xs arbitrary: s)
  case Nil
  then show ?case by (cases ys) (simp_all split: if_splits)
next
  case (Cons x xs)
  then show ?case by (simp split: if_splits)
qed

lemma serve_handled:
  "handled (world_of (done_Wait conn later (call_handler l conn s))) = handled s @ [conn]"
  by (simp add: done_Wait_handled call_handler_handled)

lemma serve_calls:
  "prefix (calls (writer s))
     (calls (writer (world_of (done_Wait conn later (call_handler l conn s)))))"
  using call_handler_calls [of s l conn]
        done_Wait_calls [of "call_handler l conn s" conn later]
  by (rule prefix_order.trans)

text \<open>The signal, once done, stays done; closing the connection fires it; and the wait
  returns when the connection is closed by the handler or later.\<close>

lemma Close_one_signal: "Done (signal s) \<Longrightarrow> Done (signal (Close_one c s))"
  by (cases c) (simp_all add: Done_def done_Close_def)

lemma ChainedClosable_Close_keeps_done:
  "Done (signal s) \<Longrightarrow> Done (signal (ChainedClosable_Close cs s))"
  by (induction cs arbitrary: s) (simp_all add: Close_one_signal)

lemma ChainedClosable_Close_fires:
  "TheDone \<in> set cs \<Longrightarrow> Done (signal (ChainedClosable_Close cs s))"
proof (induction cs arbitrary: s)
  case Nil
  then show ?case by simp
next
  case (Cons c cs)
  show ?case
  proof (cases c)
    case TheDone
    have "Done (signal (Close_one TheDone s))" by (simp add: Done_def done_Close_def)
    then show ?thesis using TheDone by (simp add: ChainedClosable_Close_keeps_done)
  next
    case TheRequestBody
    then show ?thesis using Cons by simp
  qed
qed

lemma conn_step_keeps_done: "Done (signal s) \<Longrightarrow> Done (signal (conn_step conn x s))"
  by (cases x) (simp_all add: Connection_Write_frame ChainedClosable_Close_keeps_done)

lemma conn_steps_keeps_done: "Done (signal s) \<Longrightarrow> Done (signal (conn_steps conn xs s))"
  by (induction xs arbitrary: s) (simp_all add: conn_step_keeps_done)

lemma conn_steps_fires:
  "TheDone \<in> set (conn_OnClose conn) \<Longrightarrow> ConnClose \<in> set xs \<Longrightarrow>
   Done (signal (conn_steps conn xs s))"
proof (induction xs arbitrary: s)
  case Nil
  then show ?case by simp
next
  case (Cons x xs)
  show ?case
  proof (cases "x = ConnClose")
    case True
    then have "Done (signal (conn_step conn x s))"
      using Cons.prems(1) by (simp add: ChainedClosable_Close_fires)
    then show ?thesis by (simp add: conn_steps_keeps_done)
  next
    case False
    then show ?thesis using Cons by simp
  qed
qed

lemma done_Wait_returns:
  "TheDone \<in> set (conn_OnClose conn) \<Longrightarrow> Done (signal s) \<or> ConnClose \<in> set xs \<Longrightarrow>
   returns (done_Wait conn xs s)"
proof (induction xs arbitrary: s)
  case Nil
  then show ?case by simp
next
  case (Cons x xs)
  show ?case
  proof (cases "Done (signal s)")
    case True
    then show ?thesis by simp
  next
    case False
    then have "x = ConnClose \<or> ConnClose \<in> set xs" using Cons.prems(2) by auto
    then have "Done (signal (conn_step conn x s)) \<or> ConnClose \<in> set xs"
      using Cons.prems(1) by (auto simp add: ChainedClosable_Close_fires)
    then show ?thesis using False Cons.IH [OF Cons.prems(1)] by simp
  qed
qed

lemma call_handler_fires:
  "TheDone \<in> set (conn_OnClose conn) \<Longrightarrow> ConnClose \<in> set (handler l conn) \<Longrightarrow>
   Done (signal (call_handler l conn s))"
  by (simp add: call_handler_def conn_steps_fires)

lemma serve_returns:
  assumes "TheDone \<in> set (conn_OnClose conn)"
    and "ConnClose \<in> set (handler l conn) \<or> ConnClose \<in> set later"
  shows "returns (done_Wait conn later (call_handler l conn s))"
  using assms call_handler_fires [OF assms(1), of l s] done_Wait_returns [OF assms(1)]
  by blast

section \<open>ServeHTTP on an accepted request\<close>

text \<open>For an accepted request \<^verbatim>\<open>ServeHTTP\<close> is the wait that follows the handler call, on
  the world \<open>s5\<close> that lines 76 to 101 of hub.go build and with the connection \<open>conn\<close>
  of lines 102 to 108.\<close>

lemma ServeHTTP_accepted:
  fixes N :: "'a Net" and l request later s
  defines "s3 \<equiv> s\<lparr>writer := (writer s)\<lparr>calls := calls (writer s) @
             [CallHeaderSet ''Cache-Control'' ''no-store'', CallWriteHeader 200] @
             (if isFlusher (writer s) then [CallFlush] else [])\<rparr>\<rparr>"
  defines "s5 \<equiv> (case ParseDestination N (req_RemoteAddr request) of
             Inl err \<Rightarrow> s3\<lparr>logged := logged s @ [LogEntry AtDefault
                 (Concat N [S ''failed to parse request remote addr: '',
                            S (req_RemoteAddr request)]) (Some err)], signal := done_New\<rparr>
           | Inr dest \<Rightarrow> s3\<lparr>signal := done_New\<rparr>)"
  defines "ra1 \<equiv> (case ParseDestination N (req_RemoteAddr request) of
             Inl err \<Rightarrow> Listener_Addr l
           | Inr dest \<Rightarrow> TCPAddr (addr_IP N (dest_Address dest)) (uint (dest_Port dest)))"
  defines "ra \<equiv> (if length (ParseXForwardedFor N (req_Header request)) > 0 \<and>
                     addr_IsIP N (ParseXForwardedFor N (req_Header request) ! 0)
                  then TCPAddr (addr_IP N (ParseXForwardedFor N (req_Header request) ! 0)) 0
                  else ra1)"
  defines "conn \<equiv> \<lparr>conn_OnClose = [TheDone, TheRequestBody],
                     conn_LocalAddr = Listener_Addr l, conn_RemoteAddr = ra\<rparr>"
  assumes "accepted l request"
  shows "ServeHTTP N l request later s = done_Wait conn later (call_handler l conn s5)"
  using assms(6) unfolding s3_def s5_def ra1_def ra_def conn_def
  by (cases "ParseDestination N (req_RemoteAddr request)")
     (simp_all add: ServeHTTP_def accepted_def Let_def WriteToLog_def Header_Set_def
        WriteHeader_def Flusher_Flush_def)

text \<open>The defining equations used to evaluate the model on the concrete inputs.\<close>

lemmas model_defs =
  ServeHTTP_def Let_def call_handler_def WriteToLog_def Connection_Write_def
  flushWriter_Write_def Done_def done_New_def done_Close_def Listener_Addr_def Header_Set_def
  WriteHeader_def Writer_Write_def Flusher_Flush_def

lemmas sample_defs =
  accepted_def isValidHost_def getNormalizedPath_def listener0_def request0_def net0_def
  world0_def plain_world0_def writer0_def handler0_def

lemma accepted_sample: "accepted listener0 request0"
  by (simp add: sample_defs)

section \<open>Policy rejection\<close>

text \<open>C1. When the request's Host is not in the configured host list and that list is not
  empty, or the URL path does not start with the normalized path prefix, ServeHTTP returns
  at once, the only call it makes on the response writer is WriteHeader(404), so the status
  is 404, nothing else in the world changes and the connection handler is not invoked. An
  empty host list matches any host: such a request, with a matching path, reaches the
  handler.\<close>

theorem ServeHTTP_policy_rejection:
  "((Host (config l) \<noteq> [] \<and> req_Host request \<notin> set (Host (config l))) \<or>
     \<not> prefix (getNormalizedPath (config l)) (req_URL_Path request)
    \<longrightarrow> ServeHTTP N l request later s =
          Returned (s\<lparr>writer := (writer s)\<lparr>calls := calls (writer s) @ [CallWriteHeader 404]\<rparr>\<rparr>)
      \<and> handled (world_of (ServeHTTP N l request later s)) = handled s)
   \<and> (Host (config l) = [] \<longrightarrow> isValidHost (config l) (req_Host request))
   \<and> (Host (config l) = [] \<and> prefix (getNormalizedPath (config l)) (req_URL_Path request)
      \<longrightarrow> length (handled (world_of (ServeHTTP N l request later s))) = Suc (length (handled s)))"
proof (intro conjI impI)
  assume "Host (config l) = [] \<and> prefix (getNormalizedPath (config l)) (req_URL_Path request)"
  then have "accepted l request" by (simp add: accepted_def isValidHost_def)
  then show "length (handled (world_of (ServeHTTP N l request later s))) = Suc (length (handled s))"
    by (simp add: ServeHTTP_accepted serve_handled split: sum.splits)
qed (auto simp add: ServeHTTP_def isValidHost_def Let_def WriteHeader_def)

theorem ServeHTTP_policy_rejection_witness:
  "ServeHTTP net0 listener0 (request0\<lparr>req_Host := ''other.com''\<rparr>) [] world0 =
     Returned (world0\<lparr>writer := writer0\<lparr>calls := [CallWriteHeader 404]\<rparr>\<rparr>)
   \<and> handled (world_of (ServeHTTP net0 listener0 (request0\<lparr>req_Host := ''other.com''\<rparr>) [] world0)) = []
   \<and> ServeHTTP net0 listener0 (request0\<lparr>req_URL_Path := ''/tunnel''\<rparr>) [] world0 =
     Returned (world0\<lparr>writer := writer0\<lparr>calls := [CallWriteHeader 404]\<rparr>\<rparr>)
   \<and> isValidHost (config (listener0\<lparr>config := \<lparr>Host = [], Path = []\<rparr>\<rparr>)) ''any.host''
   \<and> length (handled (world_of (ServeHTTP net0 (listener0\<lparr>config := \<lparr>Host = [], Path = []\<rparr>\<rparr>)
        (request0\<lparr>req_Host := ''any.host''\<rparr>) [] world0))) = Suc 0"
  using ServeHTTP_policy_rejection
          [of listener0 "request0\<lparr>req_Host := ''other.com''\<rparr>" net0 "[]" world0]
        ServeHTTP_policy_rejection
          [of listener0 "request0\<lparr>req_URL_Path := ''/tunnel''\<rparr>" net0 "[]" world0]
        ServeHTTP_policy_rejection
          [of "listener0\<lparr>config := \<lparr>Host = [], Path = []\<rparr>\<rparr>"
              "request0\<lparr>req_Host := ''any.host''\<rparr>" net0 "[]" world0]
  by (simp add: listener0_def request0_def world0_def writer0_def getNormalizedPath_def)

section \<open>The flush adapter's write\<close>

text \<open>C2. A write through the flush adapter whose signal is already done returns zero
  bytes written and the closed-pipe error, and leaves the destination untouched (no call
  reaches it). Otherwise the destination's Write is called with the very bytes given, its
  answer is returned, and when the destination implements http.Flusher a Flush call
  follows the Write before the adapter returns (and no Flush otherwise).\<close>

theorem flushWriter_Write_spec:
  "(Done (fw_d fw) \<longrightarrow> flushWriter_Write fw p = ((0, Some ErrClosedPipe), fw)) \<and>
   (\<not> Done (fw_d fw) \<longrightarrow>
      fst (flushWriter_Write fw p) = writeResult (fw_w fw) p \<and>
      fw_d (snd (flushWriter_Write fw p)) = fw_d fw \<and>
      calls (fw_w (snd (flushWriter_Write fw p))) =
        calls (fw_w fw) @ [CallWrite p] @ (if isFlusher (fw_w fw) then [CallFlush] else []))"
  by (simp add: flushWriter_Write_def Writer_Write_def Flusher_Flush_def)

theorem flushWriter_Write_spec_witness:
  "flushWriter_Write \<lparr>fw_w = writer0, fw_d = done_Close done_New\<rparr> [1, 2, 3]
     = ((0, Some ErrClosedPipe), \<lparr>fw_w = writer0, fw_d = done_Close done_New\<rparr>)
   \<and> fst (flushWriter_Write \<lparr>fw_w = writer0, fw_d = done_New\<rparr> [1, 2, 3]) = (3, None)
   \<and> calls (fw_w (snd (flushWriter_Write \<lparr>fw_w = writer0, fw_d = done_New\<rparr> [1, 2, 3])))
     = [CallWrite [1, 2, 3], CallFlush]"
  using flushWriter_Write_spec [of "\<lparr>fw_w = writer0, fw_d = done_Close done_New\<rparr>" "[1, 2, 3]"]
        flushWriter_Write_spec [of "\<lparr>fw_w = writer0, fw_d = done_New\<rparr>" "[1, 2, 3]"]
  by (simp add: Done_def done_New_def done_Close_def writer0_def)

section \<open>Closing the listener\<close>

text \<open>C3, as the code has it. On a Listener that holds a file lock, every call of Close
  prints RELEASE LOCK to standard error, calls Release on the lock once, closes the server
  and returns the server's error. Close does not clear the lock handle: after a second
  call the lock has received Release twice.\<close>

theorem Listener_Close_releases_each_call:
  assumes "locker l = Some lk"
  shows "released (snd (Listener_Close e l s)) = released s @ [lk]
       \<and> stderr (snd (Listener_Close e l s)) = stderr s @ [''RELEASE LOCK'']
       \<and> serverCloses (snd (Listener_Close e l s)) = Suc (serverCloses s)
       \<and> fst (Listener_Close e l s) = e
       \<and> released (snd (Listener_Close e' l (snd (Listener_Close e l s)))) = released s @ [lk, lk]"
  using assms
  by (simp add: Listener_Close_def Server_Close_def Release_def Fprintln_Stderr_def)

theorem Listener_Close_releases_each_call_witness:
  "locker listener0 = Some (FileLocker ''/run/h2.sock.lock'') \<and>
   released (snd (Listener_Close None listener0 world0)) = [FileLocker ''/run/h2.sock.lock'']"
proof -
  have h: "locker listener0 = Some (FileLocker ''/run/h2.sock.lock'')"
    by (simp add: listener0_def)
  show ?thesis
    using h Listener_Close_releases_each_call [OF h, of None world0 None]
    by (simp add: world0_def)
qed

text \<open>Release is not exactly-once: two calls of Close on a Listener that holds a lock,
  from a world where nothing was released, leave two Release calls on that lock.\<close>

theorem Listener_Close_twice_releases_twice:
  "locker listener0 = Some (FileLocker ''/run/h2.sock.lock'') \<and>
   released world0 = [] \<and>
   released (snd (Listener_Close None listener0 (snd (Listener_Close None listener0 world0)))) =
     [FileLocker ''/run/h2.sock.lock'', FileLocker ''/run/h2.sock.lock'']"
  by (simp add: listener0_def world0_def Listener_Close_def Server_Close_def Release_def
        Fprintln_Stderr_def)

section \<open>The remote address of the connection\<close>

text \<open>C4, as the code has it. For an accepted request the remote address of the connection
  handed to the handler is, in this order of priority: the first forwarded-for address with
  port 0, when the forwarded-for header yields at least one address and the first one is
  an IP; else the address and port parsed from the transport's remote endpoint, when it
  parses; else the listener's own local address.\<close>

theorem ServeHTTP_remote_addr_order:
  assumes "accepted l request"
  shows "map conn_RemoteAddr (handled (world_of (ServeHTTP N l request later s))) =
         map conn_RemoteAddr (handled s) @
         [case ParseXForwardedFor N (req_Header request) of
            a # as \<Rightarrow>
              if addr_IsIP N a then TCPAddr (addr_IP N a) 0
              else (case ParseDestination N (req_RemoteAddr request) of
                      Inr dest \<Rightarrow> TCPAddr (addr_IP N (dest_Address dest)) (uint (dest_Port dest))
                    | Inl err \<Rightarrow> Listener_Addr l)
          | [] \<Rightarrow>
              (case ParseDestination N (req_RemoteAddr request) of
                 Inr dest \<Rightarrow> TCPAddr (addr_IP N (dest_Address dest)) (uint (dest_Port dest))
               | Inl err \<Rightarrow> Listener_Addr l)]"
  by (simp add: ServeHTTP_accepted [OF assms] serve_handled split: sum.splits list.splits)

theorem ServeHTTP_remote_addr_order_witness:
  "accepted listener0 (request0\<lparr>req_Header := Map.empty\<rparr>) \<and>
   map conn_RemoteAddr (handled (world_of
       (ServeHTTP net0 listener0 (request0\<lparr>req_Header := Map.empty\<rparr>) [] world0))) =
     [TCPAddr [10, 0, 0, 7] 4321]"
proof -
  have h: "accepted listener0 (request0\<lparr>req_Header := Map.empty\<rparr>)"
    by (simp add: accepted_def listener0_def request0_def isValidHost_def getNormalizedPath_def)
  show ?thesis
    using h ServeHTTP_remote_addr_order [OF h, of net0 "[]" world0]
    by (simp add: net0_def request0_def world0_def)
qed

text \<open>The parsed endpoint does not take priority: on a request whose remote endpoint parses
  (to 10.0.0.7, port 4321) and whose forwarded-for header holds a valid IP (203.0.113.9),
  the connection's remote address is the forwarded one with port 0, not the parsed
  endpoint. And when the endpoint does not parse and there is no forwarded-for header, the
  remote address is the listener's local address.\<close>

theorem ServeHTTP_forwarded_overrides_parsed:
  "accepted listener0 request0 \<and>
   ParseDestination net0 (req_RemoteAddr request0) =
     Inr \<lparr>dest_Address = SampleIP [10, 0, 0, 7], dest_Port = 4321\<rparr> \<and>
   ParseXForwardedFor net0 (req_Header request0) = [SampleIP [203, 0, 113, 9]] \<and>
   map conn_RemoteAddr (handled (world_of (ServeHTTP net0 listener0 request0 [] world0))) =
     [TCPAddr [203, 0, 113, 9] 0] \<and>
   map conn_RemoteAddr (handled (world_of (ServeHTTP net0 listener0
       (request0\<lparr>req_RemoteAddr := ''@'', req_Header := Map.empty\<rparr>) [] world0))) =
     [TCPAddr [127, 0, 0, 1] 8080]"
  by (simp add: sample_defs model_defs)

section \<open>The picker on an empty pool\<close>

text \<open>C5. A static picker constructed with zero workers is constructed without error, and
  PickAvailable on it returns a nil worker together with a non-nil error, the no available
  worker error.\<close>

theorem PickAvailable_empty:
  "snd (NewStaticMuxPicker []) = None \<and>
   fst (PickAvailable (fst (NewStaticMuxPicker []))) = (None, Some ErrNoAvailableWorker)"
  by (simp add: NewStaticMuxPicker_def PickAvailable_def)

section \<open>Response headers before the body\<close>

text \<open>C6, as the code has it. For an accepted request the calls ServeHTTP makes on the
  response writer begin with Header().Set(Cache-Control, no-store), WriteHeader(200) and,
  when the writer implements http.Flusher, Flush; every other call, so every write of body
  bytes, comes after them. A writer that does not implement http.Flusher is not flushed.\<close>

theorem ServeHTTP_headers_first:
  assumes "accepted l request"
  shows "prefix (calls (writer s) @
           [CallHeaderSet ''Cache-Control'' ''no-store'', CallWriteHeader 200] @
           (if isFlusher (writer s) then [CallFlush] else []))
         (calls (writer (world_of (ServeHTTP N l request later s))))"
proof (cases "ParseDestination N (req_RemoteAddr request)")
  case (Inl err)
  show ?thesis
    unfolding ServeHTTP_accepted [OF assms]
    by (rule prefix_order.trans [OF _ serve_calls]) (simp add: Inl)
next
  case (Inr dest)
  show ?thesis
    unfolding ServeHTTP_accepted [OF assms]
    by (rule prefix_order.trans [OF _ serve_calls]) (simp add: Inr)
qed

theorem ServeHTTP_headers_first_witness:
  "accepted listener0 request0 \<and>
   prefix (calls (writer world0) @
           [CallHeaderSet ''Cache-Control'' ''no-store'', CallWriteHeader 200] @
           (if isFlusher (writer world0) then [CallFlush] else []))
     (calls (writer (world_of (ServeHTTP net0 listener0 request0 [] world0))))"
  using accepted_sample ServeHTTP_headers_first [OF accepted_sample, of world0 net0 "[]"]
  by simp

text \<open>The flush is not unconditional: with a response writer that does not implement
  http.Flusher an accepted request gets its header and status, then the handler's body
  bytes are written, and no Flush call is ever made.\<close>

theorem ServeHTTP_no_flush_without_Flusher:
  "accepted listener0 request0 \<and>
   calls (writer (world_of (ServeHTTP net0 listener0 request0 [] plain_world0))) =
     [CallHeaderSet ''Cache-Control'' ''no-store'', CallWriteHeader 200, CallWrite [104, 105]]"
  by (simp add: sample_defs model_defs)

section \<open>The forwarded address\<close>

text \<open>C7. For an accepted request whose forwarded-for header yields at least one address,
  the first of which is an IP, the remote address of the connection handed to the handler
  is that IP with port 0, whatever the parse of the transport's remote endpoint gave.\<close>

theorem ServeHTTP_forwarded_preferred:
  assumes "accepted l request"
    and "ParseXForwardedFor N (req_Header request) = a # as"
    and "addr_IsIP N a"
  shows "map conn_RemoteAddr (handled (world_of (ServeHTTP N l request later s))) =
         map conn_RemoteAddr (handled s) @ [TCPAddr (addr_IP N a) 0]"
  using assms(2,3)
  by (simp add: ServeHTTP_accepted [OF assms(1)] serve_handled split: sum.splits)

theorem ServeHTTP_forwarded_preferred_witness:
  "accepted listener0 request0 \<and>
   ParseXForwardedFor net0 (req_Header request0) = [SampleIP [203, 0, 113, 9]] \<and>
   addr_IsIP net0 (SampleIP [203, 0, 113, 9]) \<and>
   (\<exists>dest. ParseDestination net0 (req_RemoteAddr request0) = Inr dest) \<and>
   map conn_RemoteAddr (handled (world_of (ServeHTTP net0 listener0 request0 [] world0))) =
     map conn_RemoteAddr (handled world0) @ [TCPAddr (addr_IP net0 (SampleIP [203, 0, 113, 9])) 0]"
proof -
  have f: "ParseXForwardedFor net0 (req_Header request0) = [SampleIP [203, 0, 113, 9]]"
    by (simp add: net0_def request0_def)
  have i: "addr_IsIP net0 (SampleIP [203, 0, 113, 9])"
    by (simp add: net0_def)
  have p: "\<exists>dest. ParseDestination net0 (req_RemoteAddr request0) = Inr dest"
    by (simp add: net0_def request0_def)
  show ?thesis
    using accepted_sample f i p
      ServeHTTP_forwarded_preferred [OF accepted_sample f i, of "[]" world0]
    by simp
qed

section \<open>Listen and the errors of its goroutine\<close>

text \<open>C8. When ProtocolSettings holds this transport's Config, Listen returns the Listener
  with a nil error, and what it returns does not depend on the outcome of ListenSystem,
  Serve or ServeTLS. In the goroutine a failure of ListenSystem adds one log entry carrying
  the error and changes nothing else; a failure of Serve or ServeTLS likewise adds one
  log entry carrying the error.\<close>

theorem Listen_errors_only_logged:
  assumes "ProtocolSettings ss = HTTPConfig cfg"
  shows "\<exists>l s1.
      Listen N Y ctx address port ss hdl s = Return ((l, None), s1)
    \<and> Listen N (Y\<lparr>ListenSystem := ls, Serve := sv, ServeTLS := st\<rparr>) ctx address port ss hdl s =
        Return ((l, None), s1)
    \<and> (\<forall>err. ListenSystem Y (local l) (SocketSettings ss) = Inl err \<longrightarrow>
          (\<exists>msg. Listen_go N Y ctx address port ss l s1 =
             Return (l, s1\<lparr>logged := logged s1 @ [LogEntry AtDefault msg (Some err)]\<rparr>)))
    \<and> (\<forall>sl err. ListenSystem Y (local l) (SocketSettings ss) = Inr sl \<and>
          (port \<noteq> 0 \<or> (\<forall>ty. ctx (addr_Domain N address) \<noteq> Some (OtherValue ty))) \<and>
          (case ConfigFromStreamSettings Y ss of
             None \<Rightarrow> Serve Y (server l) sl
           | Some c \<Rightarrow> ServeTLS Y (server l) sl) = Some err \<longrightarrow>
          (\<exists>msg l'. Listen_go N Y ctx address port ss l s1 =
             Return (l', s1\<lparr>logged := logged s1 @ [LogEntry AtDefault msg (Some err)]\<rparr>)))"
proof -
  define l where "l = \<lparr>server = (case ConfigFromStreamSettings Y ss of
                        None \<Rightarrow>
                          \<lparr>srv_Addr = Concat N [A address, S '':'', P port],
                           srv_TLSConfig = None,
                           srv_Handler = H2CHandler,
                           srv_ReadHeaderTimeout = 4\<rparr>
                      | Some c \<Rightarrow>
                          \<lparr>srv_Addr = Concat N [A address, S '':'', P port],
                           srv_TLSConfig = Some (GetTLSConfig c ''h2''),
                           srv_Handler = ListenerHandler,
                           srv_ReadHeaderTimeout = 4\<rparr>),
       handler = hdl,
       local = (if port = 0 then UnixAddr (addr_Domain N address) ''unix''
                else TCPAddr (addr_IP N address) (uint port)),
       config = cfg, locker = None\<rparr>"
  define s1 where "s1 = (case SocketSettings ss of
                       None \<Rightarrow> s
                     | Some so \<Rightarrow>
                         if AcceptProxyProtocol so
                         then WriteToLog (LogEntry AtWarning
                                (Concat N [S ''accepting PROXY protocol'']) None) s
                         else s)"
  have L: "Listen N Y ctx address port ss hdl s = Return ((l, None), s1)"
    using assms by (simp add: Listen_def Let_def l_def s1_def)
  have indep: "Listen N (Y\<lparr>ListenSystem := ls, Serve := sv, ServeTLS := st\<rparr>)
                 ctx address port ss hdl s = Return ((l, None), s1)"
    using assms by (simp add: Listen_def Let_def l_def s1_def)
  have lcl: "local l = (if port = 0 then UnixAddr (addr_Domain N address) ''unix''
                        else TCPAddr (addr_IP N address) (uint port))"
    by (simp add: l_def)
  have bind: "\<exists>msg. Listen_go N Y ctx address port ss l s1 =
             Return (l, s1\<lparr>logged := logged s1 @ [LogEntry AtDefault msg (Some err)]\<rparr>)"
    if "ListenSystem Y (local l) (SocketSettings ss) = Inl err" for err
    using that lcl by (cases "port = 0") (auto simp add: Listen_go_def WriteToLog_def)
  have srv: "\<exists>msg l'. Listen_go N Y ctx address port ss l s1 =
             Return (l', s1\<lparr>logged := logged s1 @ [LogEntry AtDefault msg (Some err)]\<rparr>)"
    if "ListenSystem Y (local l) (SocketSettings ss) = Inr sl"
      and "port \<noteq> 0 \<or> (\<forall>ty. ctx (addr_Domain N address) \<noteq> Some (OtherValue ty))"
      and "(case ConfigFromStreamSettings Y ss of
             None \<Rightarrow> Serve Y (server l) sl
           | Some c \<Rightarrow> ServeTLS Y (server l) sl) = Some err" for sl err
    using that lcl
    by (auto simp add: Listen_go_def Listen_serve_def WriteToLog_def
          split: if_splits option.splits ctx_value.splits)
  show ?thesis
    using L indep bind srv by blast
qed

theorem Listen_errors_only_logged_witness:
  "ProtocolSettings settings0 = HTTPConfig \<lparr>Host = [''example.com''], Path = ''/tunnel''\<rparr> \<and>
   (\<exists>l. Listen net0 sys0 Map.empty (SampleIP [127, 0, 0, 1]) 8080 settings0 handler0 world0 =
          Return ((l, None), world0)
      \<and> ListenSystem sys0 (local l) (SocketSettings settings0) = Inl (Err ''address already in use'')
      \<and> Listen_go net0 sys0 Map.empty (SampleIP [127, 0, 0, 1]) 8080 settings0 l world0 =
          Return (l, world0\<lparr>logged := [LogEntry AtDefault ''failed to listen on ADDR:PORT''
                                         (Some (Err ''address already in use''))]\<rparr>)) \<and>
   (\<exists>l. Listen net0 sys1 Map.empty (SampleIP [127, 0, 0, 1]) 8080 settings0 handler0 world0 =
          Return ((l, None), world0)
      \<and> ListenSystem sys1 (local l) (SocketSettings settings0) = Inr 7
      \<and> Serve sys1 (server l) 7 = Some (Err ''http: Server closed'')
      \<and> Listen_go net0 sys1 Map.empty (SampleIP [127, 0, 0, 1]) 8080 settings0 l world0 =
          Return (l, world0\<lparr>logged := [LogEntry AtDefault ''stoping serving H2C''
                                         (Some (Err ''http: Server closed''))]\<rparr>))"
proof -
  have h: "ProtocolSettings settings0 = HTTPConfig \<lparr>Host = [''example.com''], Path = ''/tunnel''\<rparr>"
    by (simp add: settings0_def)
  show ?thesis
    using h
      Listen_errors_only_logged [OF h, where N = net0 and Y = sys0 and ctx = Map.empty
        and address = "SampleIP [127, 0, 0, 1]" and port = 8080 and hdl = handler0
        and s = world0 and ls = "ListenSystem sys0" and sv = "Serve sys0"
        and st = "ServeTLS sys0"]
      Listen_errors_only_logged [OF h, where N = net0 and Y = sys1 and ctx = Map.empty
        and address = "SampleIP [127, 0, 0, 1]" and port = 8080 and hdl = handler0
        and s = world0 and ls = "ListenSystem sys1" and sv = "Serve sys1"
        and st = "ServeTLS sys1"]
    by (simp add: Listen_def Listen_go_def Listen_serve_def settings0_def sys0_def sys1_def
          net0_def world0_def WriteToLog_def)
qed

section \<open>The handler call and the wait\<close>

text \<open>C9. For an accepted request ServeHTTP invokes the connection handler once, with the
  connection it synthesized (closing it closes the signal and the request body; its local
  address is the listener's), and then waits: the call returns exactly when the signal of
  that connection is done and stays blocked as long as it is not; it does return when the
  handler, or a later holder, closes the connection; and once it has returned nothing
  that happens later on the connection is part of the call.\<close>

theorem ServeHTTP_waits_for_signal:
  assumes "accepted l request"
  shows "(\<exists>conn. handled (world_of (ServeHTTP N l request later s)) = handled s @ [conn]
            \<and> conn_OnClose conn = [TheDone, TheRequestBody]
            \<and> conn_LocalAddr conn = Listener_Addr l
            \<and> (ConnClose \<in> set (handler l conn) \<or> ConnClose \<in> set later
                 \<longrightarrow> returns (ServeHTTP N l request later s)))
       \<and> (returns (ServeHTTP N l request later s) \<longleftrightarrow>
            Done (signal (world_of (ServeHTTP N l request later s))))
       \<and> (returns (ServeHTTP N l request later s) \<longrightarrow>
            ServeHTTP N l request (later @ further) s = ServeHTTP N l request later s)"
proof (intro conjI)
  show "\<exists>conn. handled (world_of (ServeHTTP N l request later s)) = handled s @ [conn]
            \<and> conn_OnClose conn = [TheDone, TheRequestBody]
            \<and> conn_LocalAddr conn = Listener_Addr l
            \<and> (ConnClose \<in> set (handler l conn) \<or> ConnClose \<in> set later
                 \<longrightarrow> returns (ServeHTTP N l request later s))"
    unfolding ServeHTTP_accepted [OF assms]
    by (simp add: serve_handled serve_returns split: sum.splits)
  show "returns (ServeHTTP N l request later s) \<longleftrightarrow>
          Done (signal (world_of (ServeHTTP N l request later s)))"
    unfolding ServeHTTP_accepted [OF assms] by (rule done_Wait_returns_iff)
  show "returns (ServeHTTP N l request later s) \<longrightarrow>
          ServeHTTP N l request (later @ further) s = ServeHTTP N l request later s"
    unfolding ServeHTTP_accepted [OF assms] by (simp add: done_Wait_append)
qed

theorem ServeHTTP_waits_for_signal_witness:
  "accepted listener0 request0 \<and>
   (\<exists>conn. handled (world_of (ServeHTTP net0 listener0 request0 [] world0)) = handled world0 @ [conn]
            \<and> conn_OnClose conn = [TheDone, TheRequestBody]
            \<and> conn_LocalAddr conn = Listener_Addr listener0)
   \<and> returns (ServeHTTP net0 listener0 request0 [] world0)
   \<and> Done (signal (world_of (ServeHTTP net0 listener0 request0 [] world0)))
   \<and> ServeHTTP net0 listener0 request0 ([] @ [ConnWrite [1]]) world0 =
       ServeHTTP net0 listener0 request0 [] world0
   \<and> \<not> returns (ServeHTTP net0 (listener0\<lparr>handler := (\<lambda>conn. [])\<rparr>) request0 [ConnWrite [1]] world0)
   \<and> \<not> Done (signal (world_of
         (ServeHTTP net0 (listener0\<lparr>handler := (\<lambda>conn. [])\<rparr>) request0 [ConnWrite [1]] world0)))"
proof -
  have r: "returns (ServeHTTP net0 listener0 request0 [] world0)"
    by (simp add: sample_defs model_defs)
  have a: "accepted (listener0\<lparr>handler := (\<lambda>conn. [])\<rparr>) request0"
    using accepted_sample by (simp add: accepted_def)
  have b: "\<not> returns (ServeHTTP net0 (listener0\<lparr>handler := (\<lambda>conn. [])\<rparr>) request0
                       [ConnWrite [1]] world0)"
    by (simp add: sample_defs model_defs)
  show ?thesis
    using accepted_sample r b
      ServeHTTP_waits_for_signal [OF accepted_sample, of net0 "[]" world0 "[ConnWrite [1]]"]
      ServeHTTP_waits_for_signal [OF a, of net0 "[ConnWrite [1]]" world0 "[]"]
    by blast
qed

section \<open>The unchecked cast in Listen\<close>

text \<open>C10. When ProtocolSettings holds anything but this transport's Config (a value of
  another type, or nil), Listen panics on the type assertion, before any Listener exists
  and without any effect; when it holds a Config, Listen returns.\<close>

theorem Listen_panics_without_Config:
  "((\<forall>cfg. ProtocolSettings ss \<noteq> HTTPConfig cfg) \<longrightarrow>
      Listen N Y ctx address port ss hdl s = Panic ''interface conversion'')
   \<and> ((\<exists>cfg. ProtocolSettings ss = HTTPConfig cfg) \<longrightarrow>
      (\<exists>r. Listen N Y ctx address port ss hdl s = Return r))"
  by (cases "ProtocolSettings ss") (simp_all add: Listen_def Let_def)

theorem Listen_panics_without_Config_witness:
  "Listen net0 sys0 Map.empty (SampleIP [127, 0, 0, 1]) 8080
     (settings0\<lparr>ProtocolSettings := OtherSettings ''*websocket.Config''\<rparr>)
     handler0 world0 = Panic ''interface conversion''
   \<and> Listen net0 sys0 Map.empty (SampleIP [127, 0, 0, 1]) 8080
     (settings0\<lparr>ProtocolSettings := NilSettings\<rparr>)
     handler0 world0 = Panic ''interface conversion''
   \<and> (\<exists>r. Listen net0 sys0 Map.empty (SampleIP [127, 0, 0, 1]) 8080 settings0
            handler0 world0 = Return r)"
  using Listen_panics_without_Config
          [of "settings0\<lparr>ProtocolSettings := OtherSettings ''*websocket.Config''\<rparr>"
              net0 sys0 Map.empty "SampleIP [127, 0, 0, 1]" 8080 handler0 world0]
        Listen_panics_without_Config
          [of "settings0\<lparr>ProtocolSettings := NilSettings\<rparr>"
              net0 sys0 Map.empty "SampleIP [127, 0, 0, 1]" 8080 handler0 world0]
        Listen_panics_without_Config
          [of settings0
              net0 sys0 Map.empty "SampleIP [127, 0, 0, 1]" 8080 handler0 world0]
  by (simp add: settings0_def)

end
